theory Spec2Isabelle
  imports Main "HOL-Library.Sublist" "HOL-Library.List_Lexorder" "HOL-Library.Char_ord"
begin

section \<open>Python values\<close>

text \<open>
  The values a configuration file holds. Dictionaries are association lists in
  insertion order with string keys (the keys JSON objects and TOML tables have);
  floats and dates are left out. Strings are lists of ASCII characters.
\<close>

datatype pyval =
    PNone
  | PBool bool
  | PInt int
  | PStr string
  | PList "pyval list"
  | PDict "(string \<times> pyval) list"

text \<open>\<^verbatim>\<open>isinstance(new_values, dict)\<close>\<close>

fun isinstance_dict :: "pyval \<Rightarrow> bool" where
  "isinstance_dict (PDict d) = True"
| "isinstance_dict v = False"

text \<open>\<^verbatim>\<open>d[k] = v\<close>: an existing key keeps its position, a new key goes last.\<close>

fun setitem :: "string \<Rightarrow> pyval \<Rightarrow> (string \<times> pyval) list \<Rightarrow> (string \<times> pyval) list" where
  "setitem k v [] = [(k, v)]"
| "setitem k v ((k', v') # d) =
     (if k' = k then (k, v) # d else (k', v') # setitem k v d)"

text \<open>\<^verbatim>\<open>d.update(n)\<close> for a dictionary \<open>n\<close>: one item assignment per item of \<open>n\<close>, in order.\<close>

definition dict_update :: "(string \<times> pyval) list \<Rightarrow> (string \<times> pyval) list \<Rightarrow> (string \<times> pyval) list" where
  "dict_update d n = fold (\<lambda>(k, v). setitem k v) n d"

text \<open>
  \<^verbatim>\<open>a == b\<close> on these values: two dictionaries are equal when they have the same items,
  in whatever order. \<open>canon\<close> puts the items of every dictionary in the order of their
  keys.
\<close>

primrec canon :: "pyval \<Rightarrow> pyval" where
  "canon PNone = PNone"
| "canon (PBool b) = PBool b"
| "canon (PInt i) = PInt i"
| "canon (PStr s) = PStr s"
| "canon (PList xs) = PList (map canon xs)"
| "canon (PDict d) = PDict (sort_key fst (map (map_prod id canon) d))"

definition py_eq :: "pyval \<Rightarrow> pyval \<Rightarrow> bool" where
  "py_eq a b = (canon a = canon b)"

section \<open>Exceptions\<close>

text \<open>
  What the json, tomli_w and tomllib libraries and the codecs raise is kept apart from
  what this module and the operating system raise: the module's own errors are
  \<open>ValueError\<close>s with its own messages.
\<close>

datatype lib_exn =
    TOMLDecodeError
  | JSONDecodeError
  | TypeError string
  | UnicodeError
  | OtherLibraryError string

datatype exn =
    ValueError string
  | FileNotFoundError
  | IsADirectoryError
  | NotADirectoryError
  | AttributeError
  | LibraryError lib_exn

section \<open>The libraries the module calls\<close>

text \<open>
  The serialisers and parsers are not part of the repository; the operations take
  them as a parameter. \<open>json_dump\<close> gets the indent argument and returns the text it has
  written to the stream together with the exception that interrupted it, if any
  (\<^verbatim>\<open>json.dump\<close> writes chunk by chunk). \<open>json_load\<close> gets the bytes of the file.
\<close>

record libs =
  json_dump :: "nat option \<Rightarrow> pyval \<Rightarrow> string \<times> lib_exn option"
  json_load :: "string \<Rightarrow> lib_exn + pyval"
  tomli_w_dumps :: "pyval \<Rightarrow> lib_exn + string"
  tomllib_loads :: "string \<Rightarrow> lib_exn + pyval"
  encode_utf8 :: "string \<Rightarrow> lib_exn + string"
  decode_utf8 :: "string \<Rightarrow> lib_exn + string"

section \<open>The file system\<close>

text \<open>
  A path holds a regular file with its bytes, a directory, or nothing. A path names a
  node as it is written. Permissions and links are not modelled, and a node that exists
  is reached without looking at the directories above it.
\<close>

datatype node = File string | Dir

type_synonym filesystem = "string \<rightharpoonup> node"

definition os_path_exists :: "filesystem \<Rightarrow> string \<Rightarrow> bool" where
  "os_path_exists fs p = (fs p \<noteq> None)"

text \<open>
  \<^verbatim>\<open>os.makedirs(p)\<close>, called for a path that does not exist: the directory is recorded;
  the directories above it are not.
\<close>

definition os_makedirs :: "filesystem \<Rightarrow> string \<Rightarrow> filesystem" where
  "os_makedirs fs p = fs(p \<mapsto> Dir)"

text \<open>\<^verbatim>\<open>os.path.join(a, b)\<close> of posixpath.\<close>

definition os_path_join :: "string \<Rightarrow> string \<Rightarrow> string" where
  "os_path_join a b =
     (if take 1 b = ''/'' then b
      else if a = [] \<or> drop (length a - 1) a = ''/'' then a @ b
      else a @ ''/'' @ b)"

text \<open>
  \<^verbatim>\<open>os.path.dirname(p)\<close> of posixpath: what stands before the last separator, without
  its trailing separators unless it is made of separators only.
\<close>

definition os_path_dirname :: "string \<Rightarrow> string" where
  "os_path_dirname p =
     (let head = rev (dropWhile (\<lambda>c. c \<noteq> CHR ''/'') (rev p))
      in if dropWhile (\<lambda>c. c = CHR ''/'') head = [] then head
         else rev (dropWhile (\<lambda>c. c = CHR ''/'') (rev head)))"

text \<open>
  The directory a path lies in. The current directory (an empty dirname) and the root
  are directories.
\<close>

definition parent_node :: "filesystem \<Rightarrow> string \<Rightarrow> node option" where
  "parent_node fs p =
     (if dropWhile (\<lambda>c. c = CHR ''/'') (os_path_dirname p) = [] then Some Dir
      else fs (os_path_dirname p))"

text \<open>
  \<^verbatim>\<open>open(p, 'w')\<close> and \<^verbatim>\<open>open(p, 'wb')\<close>: an existing file is truncated; a new file is created
  in an existing directory; a missing directory raises FileNotFoundError, a regular
  file in the place of the directory NotADirectoryError.
\<close>

definition open_write :: "filesystem \<Rightarrow> string \<Rightarrow> exn + filesystem" where
  "open_write fs p =
     (case fs p of
        Some Dir \<Rightarrow> Inl IsADirectoryError
      | Some (File old) \<Rightarrow> Inr (fs(p \<mapsto> File []))
      | None \<Rightarrow>
         (case parent_node fs p of
            None \<Rightarrow> Inl FileNotFoundError
          | Some (File c) \<Rightarrow> Inl NotADirectoryError
          | Some Dir \<Rightarrow> Inr (fs(p \<mapsto> File []))))"

text \<open>The paths \<open>open_write\<close> opens: an existing file, or a new file in an existing directory.\<close>

definition writable :: "filesystem \<Rightarrow> string \<Rightarrow> bool" where
  "writable fs p =
     (case fs p of
        Some Dir \<Rightarrow> False
      | Some (File old) \<Rightarrow> True
      | None \<Rightarrow> parent_node fs p = Some Dir)"

text \<open>\<^verbatim>\<open>f.write(data)\<close> on a handle opened for writing, flushed when the handle closes.\<close>

definition f_write :: "filesystem \<Rightarrow> string \<Rightarrow> string \<Rightarrow> filesystem" where
  "f_write fs p data =
     (case fs p of
        Some (File old) \<Rightarrow> fs(p \<mapsto> File (old @ data))
      | _ \<Rightarrow> fs)"

text \<open>\<^verbatim>\<open>os.remove(p)\<close>\<close>

definition os_remove :: "filesystem \<Rightarrow> string \<Rightarrow> (exn + unit) \<times> filesystem" where
  "os_remove fs p =
     (case fs p of
        None \<Rightarrow> (Inl FileNotFoundError, fs)
      | Some Dir \<Rightarrow> (Inl IsADirectoryError, fs)
      | Some (File c) \<Rightarrow> (Inr (), fs(p := None)))"

section \<open>String helpers\<close>

text \<open>\<^verbatim>\<open>str.lower()\<close> on ASCII text.\<close>

definition lower_char :: "char \<Rightarrow> char" where
  "lower_char c =
     (case map_of (zip ''ABCDEFGHIJKLMNOPQRSTUVWXYZ'' ''abcdefghijklmnopqrstuvwxyz'') c of
        Some l \<Rightarrow> l
      | None \<Rightarrow> c)"

definition py_lower :: "string \<Rightarrow> string" where
  "py_lower s = map lower_char s"

text \<open>\<^verbatim>\<open>x in y\<close> for two strings: \<open>x\<close> occurs in \<open>y\<close> as a contiguous run.\<close>

fun py_in :: "string \<Rightarrow> string \<Rightarrow> bool" where
  "py_in x [] = (x = [])"
| "py_in x (c # y) = (prefix x (c # y) \<or> py_in x y)"

text \<open>\<^verbatim>\<open>sep.join(xs)\<close>\<close>

fun py_join :: "string \<Rightarrow> string list \<Rightarrow> string" where
  "py_join sep [] = []"
| "py_join sep [x] = x"
| "py_join sep (x # y # xs) = x @ sep @ py_join sep (y # xs)"

section \<open>The Config class\<close>

record Config =
  config_name :: string
  file_type :: string
  default_directory :: string
  file_path :: string

definition ACCEPTED_CONFIG_TYPES :: "string list" where
  "ACCEPTED_CONFIG_TYPES = [''json'', ''toml'']"

definition format_message :: string where
  "format_message =
     ''Config File must contain one of these types: '' @ py_join '', '' ACCEPTED_CONFIG_TYPES @ ''!''"

definition toml_message :: string where
  "toml_message = ''The following is not valid TOML code:\<newline>''"

definition dict_message :: string where
  "dict_message = ''New Values must be in a dict format!''"

text \<open>\<^verbatim>\<open>_check_file_type\<close>: the type gets a leading dot unless it has a dot somewhere.\<close>

definition check_file_type :: "string \<Rightarrow> string" where
  "check_file_type ft = (if CHR ''.'' \<notin> set ft then ''.'' @ ft else ft)"

text \<open>\<^verbatim>\<open>add_content\<close>: the outcome and the file system it leaves.\<close>

definition add_content :: "libs \<Rightarrow> Config \<Rightarrow> pyval \<Rightarrow> filesystem \<Rightarrow> (exn + unit) \<times> filesystem" where
  "add_content L s contents fs =
     (if file_type s = ''.json'' then
        (case open_write fs (file_path s) of
           Inl e \<Rightarrow> (Inl e, fs)
         | Inr fs1 \<Rightarrow>
            (case json_dump L None contents of
               (txt, None) \<Rightarrow> (Inr (), f_write fs1 (file_path s) txt)
             | (txt, Some e) \<Rightarrow> (Inl (LibraryError e), f_write fs1 (file_path s) txt)))
      else if file_type s = ''.toml'' then
        (case open_write fs (file_path s) of
           Inl e \<Rightarrow> (Inl e, fs)
         | Inr fs1 \<Rightarrow>
            (case tomli_w_dumps L contents of
               Inl e \<Rightarrow> (Inl (LibraryError e), fs1)
             | Inr contents_str \<Rightarrow>
                (case tomllib_loads L contents_str of
                   Inl TOMLDecodeError \<Rightarrow> (Inl (ValueError (toml_message @ contents_str)), fs1)
                 | Inl e \<Rightarrow> (Inl (LibraryError e), fs1)
                 | Inr v \<Rightarrow>
                    (case encode_utf8 L contents_str of
                       Inl e \<Rightarrow> (Inl (LibraryError e), fs1)
                     | Inr contents_bytes \<Rightarrow>
                         (Inr (), f_write fs1 (file_path s) contents_bytes)))))
      else (Inr (), fs))"

text \<open>\<^verbatim>\<open>get_content\<close>; with a file type that is neither branch the method returns None.\<close>

definition get_content :: "libs \<Rightarrow> Config \<Rightarrow> filesystem \<Rightarrow> (exn + pyval) \<times> filesystem" where
  "get_content L s fs =
     (if \<not> os_path_exists fs (file_path s) then (Inr (PDict []), fs)
      else
        (case fs (file_path s) of
           None \<Rightarrow> (Inl FileNotFoundError, fs)
         | Some Dir \<Rightarrow> (Inl IsADirectoryError, fs)
         | Some (File contents_bytes) \<Rightarrow>
            (if file_type s = ''.json'' then
               (case json_load L contents_bytes of
                  Inl e \<Rightarrow> (Inl (LibraryError e), fs)
                | Inr v \<Rightarrow> (Inr v, fs))
             else if file_type s = ''.toml'' then
               (case decode_utf8 L contents_bytes of
                  Inl e \<Rightarrow> (Inl (LibraryError e), fs)
                | Inr contents_str \<Rightarrow>
                   (case tomllib_loads L contents_str of
                      Inl e \<Rightarrow> (Inl (LibraryError e), fs)
                    | Inr v \<Rightarrow> (Inr v, fs)))
             else (Inr PNone, fs))))"

text \<open>\<^verbatim>\<open>file_contents.update(new_values)\<close>: only a dictionary has the method.\<close>

definition py_update :: "pyval \<Rightarrow> (string \<times> pyval) list \<Rightarrow> exn + pyval" where
  "py_update file_contents n =
     (case file_contents of
        PDict d \<Rightarrow> Inr (PDict (dict_update d n))
      | _ \<Rightarrow> Inl AttributeError)"

text \<open>The items of a value that passed the \<open>isinstance\<close> check.\<close>

fun items :: "pyval \<Rightarrow> (string \<times> pyval) list" where
  "items (PDict n) = n"
| "items v = []"

text \<open>\<^verbatim>\<open>update_content\<close>\<close>

definition update_content :: "libs \<Rightarrow> Config \<Rightarrow> pyval \<Rightarrow> filesystem \<Rightarrow> (exn + unit) \<times> filesystem" where
  "update_content L s new_values fs =
     (if \<not> isinstance_dict new_values then (Inl (ValueError dict_message), fs)
      else
        (case get_content L s fs of
           (Inl e, fs0) \<Rightarrow> (Inl e, fs0)
         | (Inr file_contents, fs0) \<Rightarrow>
            (case open_write fs0 (file_path s) of
               Inl e \<Rightarrow> (Inl e, fs0)
             | Inr fs1 \<Rightarrow>
                (if file_type s = ''.json'' then
                   (case py_update file_contents (items new_values) of
                      Inl e \<Rightarrow> (Inl e, fs1)
                    | Inr merged \<Rightarrow>
                       (case json_dump L (Some 2) merged of
                          (txt, None) \<Rightarrow> (Inr (), f_write fs1 (file_path s) txt)
                        | (txt, Some e) \<Rightarrow>
                            (Inl (LibraryError e), f_write fs1 (file_path s) txt)))
                 else if file_type s = ''.toml'' then
                   (case py_update file_contents (items new_values) of
                      Inl e \<Rightarrow> (Inl e, fs1)
                    | Inr merged \<Rightarrow> add_content L s merged fs1)
                 else (Inr (), fs1)))))"

text \<open>\<^verbatim>\<open>destroy_config\<close>\<close>

definition destroy_config :: "Config \<Rightarrow> filesystem \<Rightarrow> (exn + unit) \<times> filesystem" where
  "destroy_config s fs = os_remove fs (file_path s)"

text \<open>
  The pieces of \<^verbatim>\<open>__init__\<close>. The check of the file type:
  \<^verbatim>\<open>any(config_type.lower() in file_type.lower() for config_type in self.ACCEPTED_CONFIG_TYPES)\<close>.
\<close>

definition accepted :: "string \<Rightarrow> bool" where
  "accepted ftype =
     list_ex (\<lambda>config_type. py_in (py_lower config_type) (py_lower ftype)) ACCEPTED_CONFIG_TYPES"

text \<open>
  \<^verbatim>\<open>default_directory or os.getcwd()\<close>: \<open>cwd\<close> is what \<^verbatim>\<open>os.getcwd()\<close> returns, taken for None
  and for the empty string.
\<close>

definition directory_of :: "string \<Rightarrow> string option \<Rightarrow> string" where
  "directory_of cwd dir = (case dir of None \<Rightarrow> cwd | Some d \<Rightarrow> if d = [] then cwd else d)"

text \<open>\<^verbatim>\<open>os.path.join(self.default_directory, self.config_name + self.file_type)\<close>\<close>

definition path_of :: "string \<Rightarrow> string \<Rightarrow> string option \<Rightarrow> string \<Rightarrow> string" where
  "path_of cwd file_name dir ftype =
     os_path_join (directory_of cwd dir) (file_name @ check_file_type ftype)"

text \<open>
  \<^verbatim>\<open>__init__\<close>: the outcome (the instance, or the exception raised) and the file system
  it leaves.
\<close>

definition init :: "libs \<Rightarrow> string \<Rightarrow> string \<Rightarrow> string \<Rightarrow> string option \<Rightarrow> filesystem
    \<Rightarrow> (exn + Config) \<times> filesystem" where
  "init L cwd file_name ftype dir fs =
     (if \<not> accepted ftype then (Inl (ValueError format_message), fs)
      else
        (let s = \<lparr>config_name = file_name,
                  file_type = check_file_type ftype,
                  default_directory = directory_of cwd dir,
                  file_path = path_of cwd file_name dir ftype\<rparr>;
             fs1 = (if \<not> os_path_exists fs (default_directory s)
                    then os_makedirs fs (default_directory s) else fs)
         in if \<not> os_path_exists fs1 (file_path s) then
              (case add_content L s (PDict []) fs1 of
                 (Inl e, fs2) \<Rightarrow> (Inl e, fs2)
               | (Inr u, fs2) \<Rightarrow> (Inr s, fs2))
            else (Inr s, fs1)))"

section \<open>Values a format represents\<close>

text \<open>
  A value is representable in a format when the writer of the format accepts it and the
  reader returns an equal value from what was written. \<open>indent\<close> is the indentation given
  to the JSON writer.
\<close>

definition json_representable :: "libs \<Rightarrow> nat option \<Rightarrow> pyval \<Rightarrow> bool" where
  "json_representable L indent v =
     (case json_dump L indent v of
        (out, None) \<Rightarrow>
          (case json_load L out of
             Inl e \<Rightarrow> False
           | Inr w \<Rightarrow> py_eq w v)
      | (out, Some e) \<Rightarrow> False)"

definition toml_representable :: "libs \<Rightarrow> pyval \<Rightarrow> bool" where
  "toml_representable L v =
     (case tomli_w_dumps L v of
        Inl e \<Rightarrow> False
      | Inr str \<Rightarrow>
         (case tomllib_loads L str of
            Inl e \<Rightarrow> False
          | Inr w \<Rightarrow> py_eq w v) \<and>
         (case encode_utf8 L str of
            Inl e \<Rightarrow> False
          | Inr bytes \<Rightarrow> decode_utf8 L bytes = Inr str))"

section \<open>Concrete libraries, stores and file systems\<close>

text \<open>
  What the libraries return on a handful of inputs, enough to run the operations:
  \<^verbatim>\<open>json.dump\<close> with and without \<^verbatim>\<open>indent=2\<close>, \<^verbatim>\<open>json.load\<close>, \<^verbatim>\<open>tomli_w.dumps\<close> (which raises
  TypeError on a None value) and \<^verbatim>\<open>tomllib.loads\<close>.
\<close>

definition sample_json_dump :: "nat option \<Rightarrow> pyval \<Rightarrow> string \<times> lib_exn option" where
  \<open>sample_json_dump indent v =
     (if v = PDict [] then (''{}'', None)
      else if v = PDict [(''a'', PInt 1)] then
        (case indent of None \<Rightarrow> ''{"a": 1}'' | Some i \<Rightarrow> ''{\<newline>  "a": 1\<newline>}'', None)
      else if v = PDict [(''a'', PInt 2)] then
        (case indent of None \<Rightarrow> ''{"a": 2}'' | Some i \<Rightarrow> ''{\<newline>  "a": 2\<newline>}'', None)
      else if v = PDict [(''a'', PInt 1), (''b'', PInt 2)] then
        (case indent of
           None \<Rightarrow> ''{"a": 1, "b": 2}''
         | Some i \<Rightarrow> ''{\<newline>  "a": 1,\<newline>  "b": 2\<newline>}'', None)
      else ([], Some (OtherLibraryError ''outside the excerpt'')))\<close>

definition sample_json_load :: "string \<Rightarrow> lib_exn + pyval" where
  \<open>sample_json_load b =
     (if b = ''{}'' then Inr (PDict [])
      else if b = ''{"a": 1}'' \<or> b = ''{\<newline>  "a": 1\<newline>}'' then Inr (PDict [(''a'', PInt 1)])
      else if b = ''{"a": 2}'' \<or> b = ''{\<newline>  "a": 2\<newline>}'' then Inr (PDict [(''a'', PInt 2)])
      else if b = ''{"a": 1, "b": 2}'' \<or> b = ''{\<newline>  "a": 1,\<newline>  "b": 2\<newline>}''
        then Inr (PDict [(''a'', PInt 1), (''b'', PInt 2)])
      else if b = ''[1, 2]'' then Inr (PList [PInt 1, PInt 2])
      else if b = [] then Inl JSONDecodeError
      else Inl (OtherLibraryError ''outside the excerpt''))\<close>

definition sample_tomli_w_dumps :: "pyval \<Rightarrow> lib_exn + string" where
  "sample_tomli_w_dumps v =
     (if v = PDict [] then Inr []
      else if v = PDict [(''a'', PInt 1)] then Inr ''a = 1\<newline>''
      else if v = PDict [(''a'', PInt 2)] then Inr ''a = 2\<newline>''
      else if v = PDict [(''a'', PInt 1), (''b'', PInt 2)] then Inr ''a = 1\<newline>b = 2\<newline>''
      else if v = PDict [(''k'', PNone)] \<or> v = PDict [(''a'', PInt 1), (''k'', PNone)]
        then Inl (TypeError ''Object of type 'NoneType' is not TOML serializable'')
      else Inl (OtherLibraryError ''outside the excerpt''))"

definition sample_tomllib_loads :: "string \<Rightarrow> lib_exn + pyval" where
  "sample_tomllib_loads t =
     (if t = [] then Inr (PDict [])
      else if t = ''a = 1\<newline>'' then Inr (PDict [(''a'', PInt 1)])
      else if t = ''a = 2\<newline>'' then Inr (PDict [(''a'', PInt 2)])
      else if t = ''a = 1\<newline>b = 2\<newline>'' then Inr (PDict [(''a'', PInt 1), (''b'', PInt 2)])
      else if t = ''[unclosed'' then Inl TOMLDecodeError
      else Inl (OtherLibraryError ''outside the excerpt''))"

definition sample_libs :: libs where
  "sample_libs =
     \<lparr>json_dump = sample_json_dump,
      json_load = sample_json_load,
      tomli_w_dumps = sample_tomli_w_dumps,
      tomllib_loads = sample_tomllib_loads,
      encode_utf8 = Inr,
      decode_utf8 = Inr\<rparr>"

text \<open>A writer that accepts every value and emits text the reader rejects.\<close>

definition careless_writer_libs :: libs where
  "careless_writer_libs = sample_libs\<lparr>tomli_w_dumps := (\<lambda>v. Inr ''[unclosed'')\<rparr>"

text \<open>The stores \<^verbatim>\<open>Config('test', 'json', '/tmp/cfg')\<close> and \<^verbatim>\<open>Config('test', 'toml', '/tmp/cfg')\<close>.\<close>

definition json_store :: Config where
  "json_store =
     \<lparr>config_name = ''test'', file_type = ''.json'',
      default_directory = ''/tmp/cfg'', file_path = ''/tmp/cfg/test.json''\<rparr>"

definition toml_store :: Config where
  "toml_store =
     \<lparr>config_name = ''test'', file_type = ''.toml'',
      default_directory = ''/tmp/cfg'', file_path = ''/tmp/cfg/test.toml''\<rparr>"

text \<open>
  The store \<^verbatim>\<open>Config('test', 'JSON', '/tmp/cfg')\<close>: the constructor accepts the type and
  makes it \<open>.JSON\<close>.
\<close>

definition upper_store :: Config where
  "upper_store =
     \<lparr>config_name = ''test'', file_type = ''.JSON'',
      default_directory = ''/tmp/cfg'', file_path = ''/tmp/cfg/test.JSON''\<rparr>"

text \<open>
  An empty file system, one with the directory of the stores only, and one with the
  directory and a single file.
\<close>

definition cfg_dir :: filesystem where
  "cfg_dir = [''/tmp/cfg'' \<mapsto> Dir]"

definition no_files :: filesystem where
  "no_files = Map.empty"

definition one_file :: "string \<Rightarrow> string \<Rightarrow> filesystem" where
  "one_file p c = [''/tmp/cfg'' \<mapsto> Dir, p \<mapsto> File c]"

section \<open>Auxiliary facts\<close>

lemmas sample_defs =
  sample_libs_def sample_json_dump_def sample_json_load_def sample_tomli_w_dumps_def
  sample_tomllib_loads_def json_store_def toml_store_def upper_store_def
  no_files_def cfg_dir_def one_file_def

lemmas op_defs =
  add_content_def get_content_def update_content_def destroy_config_def init_def
  open_write_def parent_node_def os_path_dirname_def f_write_def os_remove_def
  os_path_exists_def os_makedirs_def py_update_def

lemmas init_defs =
  accepted_def ACCEPTED_CONFIG_TYPES_def py_lower_def lower_char_def check_file_type_def
  directory_of_def path_of_def os_path_join_def

lemma py_in_iff: "py_in x y \<longleftrightarrow> (\<exists>p q. y = p @ x @ q)"
proof -
  have "py_in x y \<longleftrightarrow> sublist x y"
    by (induction y) (auto simp: sublist_Cons_right)
  then show ?thesis by (simp add: sublist_def)
qed

lemma accepted_iff:
  "accepted ft \<longleftrightarrow>
     (\<exists>p q. py_lower ft = p @ ''json'' @ q) \<or> (\<exists>p q. py_lower ft = p @ ''toml'' @ q)"
  by (simp add: accepted_def ACCEPTED_CONFIG_TYPES_def py_in_iff py_lower_def lower_char_def)

lemma setitem_map_of: "map_of (setitem k v d) = (map_of d)(k \<mapsto> v)"
  by (induction d) auto

lemma dict_update_map_of:
  "distinct (map fst n) \<Longrightarrow> map_of (dict_update d n) = map_of d ++ map_of n"
  unfolding dict_update_def
proof (induction n arbitrary: d)
  case Nil
  show ?case by simp
next
  case (Cons a n)
  obtain k v where a: "a = (k, v)" by (cases a)
  from Cons.prems have kn: "k \<notin> fst ` set n" and dn: "distinct (map fst n)"
    by (auto simp: a)
  have "map_of n k = None" using kn by (simp add: map_of_eq_None_iff)
  then show ?case using Cons.IH[OF dn, of "setitem k v d"]
    by (auto simp: a setitem_map_of map_add_def fun_eq_iff split: option.splits)
qed

lemma format_message_neq: "toml_message @ txt \<noteq> format_message"
  by (simp add: toml_message_def format_message_def ACCEPTED_CONFIG_TYPES_def)

lemma dict_message_neq: "toml_message @ txt \<noteq> dict_message"
  by (simp add: toml_message_def dict_message_def)

lemma open_write_writable:
  "writable fs p \<Longrightarrow> open_write fs p = Inr (fs(p \<mapsto> File []))"
  by (auto simp: writable_def open_write_def split: option.splits node.splits)

lemma open_write_result:
  "open_write fs p = Inr fs1 \<Longrightarrow> fs1 = fs(p \<mapsto> File [])"
  by (auto simp: open_write_def split: option.splits node.splits)

lemma open_write_errors:
  "open_write fs p \<noteq> Inl (ValueError m)"
  by (auto simp: open_write_def split: option.splits node.splits)

lemma writable_after_open: "writable (fs(p \<mapsto> File c)) p"
  by (simp add: writable_def)

lemma add_content_errors:
  assumes "fst (add_content L s v fs) = Inl (ValueError m)"
  shows "\<exists>txt. m = toml_message @ txt"
proof (cases "open_write fs (file_path s)")
  case (Inl e)
  then show ?thesis
    using assms open_write_errors [of fs "file_path s" m]
    by (auto simp: add_content_def split: if_splits)
next
  case (Inr fs1)
  then show ?thesis
    using assms
    by (auto simp: add_content_def split: if_splits option.splits sum.splits prod.splits
        lib_exn.splits)
qed

lemma get_content_errors: "fst (get_content L s fs) \<noteq> Inl (ValueError m)"
  by (auto simp: get_content_def split: if_splits option.splits node.splits sum.splits)

lemma get_content_frame: "snd (get_content L s fs) = fs"
  by (auto simp: get_content_def split: if_splits option.splits node.splits sum.splits)

lemma init_accepted:
  assumes "accepted ft"
  shows "init L cwd name ft dir fs =
      (if \<not> os_path_exists
            (if \<not> os_path_exists fs (directory_of cwd dir)
             then os_makedirs fs (directory_of cwd dir) else fs)
            (path_of cwd name dir ft)
       then
         (case add_content L
                 \<lparr>config_name = name, file_type = check_file_type ft,
                  default_directory = directory_of cwd dir,
                  file_path = path_of cwd name dir ft\<rparr>
                 (PDict [])
                 (if \<not> os_path_exists fs (directory_of cwd dir)
                  then os_makedirs fs (directory_of cwd dir) else fs) of
            (Inl e, fs2) \<Rightarrow> (Inl e, fs2)
          | (Inr u, fs2) \<Rightarrow>
              (Inr \<lparr>config_name = name, file_type = check_file_type ft,
                    default_directory = directory_of cwd dir,
                    file_path = path_of cwd name dir ft\<rparr>, fs2))
       else
         (Inr \<lparr>config_name = name, file_type = check_file_type ft,
               default_directory = directory_of cwd dir,
               file_path = path_of cwd name dir ft\<rparr>,
          if \<not> os_path_exists fs (directory_of cwd dir)
          then os_makedirs fs (directory_of cwd dir) else fs))"
  using assms by (simp add: init_def Let_def)

text \<open>
  Writing and reading back with a file type that is exactly \<open>.json\<close> or \<open>.toml\<close>: for a
  value that is representable in the format, and a path that can be opened for writing,
  \<open>add_content\<close> succeeds and \<open>get_content\<close> returns an equal value.
\<close>

lemma roundtrip_exact_type:
  assumes rep: "file_type s = ''.json'' \<and> json_representable L None v
      \<or> file_type s = ''.toml'' \<and> toml_representable L v"
    and w: "writable fs (file_path s)"
  shows "\<exists>fs' r. add_content L s v fs = (Inr (), fs')
           \<and> get_content L s fs' = (Inr r, fs') \<and> py_eq r v"
proof -
  let ?p = "file_path s"
  have ow: "open_write fs ?p = Inr (fs(?p \<mapsto> File []))"
    using w by (rule open_write_writable)
  have fw: "\<And>d. f_write (fs(?p \<mapsto> File [])) ?p d = fs(?p \<mapsto> File d)"
    by (simp add: f_write_def)
  from rep show ?thesis
  proof
    assume j: "file_type s = ''.json'' \<and> json_representable L None v"
    then obtain out r where d: "json_dump L None v = (out, None)"
      and l: "json_load L out = Inr r" and e: "py_eq r v"
      by (auto simp: json_representable_def split: prod.splits option.splits sum.splits)
    have "add_content L s v fs = (Inr (), fs(?p \<mapsto> File out))"
      using j by (simp add: add_content_def ow d fw)
    moreover have "get_content L s (fs(?p \<mapsto> File out)) = (Inr r, fs(?p \<mapsto> File out))"
      using j by (simp add: get_content_def os_path_exists_def l)
    ultimately show ?thesis using e by blast
  next
    assume t: "file_type s = ''.toml'' \<and> toml_representable L v"
    then obtain str bytes r where d: "tomli_w_dumps L v = Inr str"
      and l: "tomllib_loads L str = Inr r" and e: "py_eq r v"
      and en: "encode_utf8 L str = Inr bytes" and dc: "decode_utf8 L bytes = Inr str"
      by (auto simp: toml_representable_def split: sum.splits)
    have "add_content L s v fs = (Inr (), fs(?p \<mapsto> File bytes))"
      using t by (simp add: add_content_def ow d l en fw)
    moreover have "get_content L s (fs(?p \<mapsto> File bytes)) = (Inr r, fs(?p \<mapsto> File bytes))"
      using t by (simp add: get_content_def os_path_exists_def dc l)
    ultimately show ?thesis using e by blast
  qed
qed

text \<open>
  Merging with a file type that is exactly \<open>.json\<close> or \<open>.toml\<close>: when the store reads as
  the mapping \<open>c\<close> and the merged mapping is representable, \<open>update_content\<close> succeeds and
  the store then reads as a value equal to the merged mapping.
\<close>

lemma merge_exact_type:
  assumes cur: "get_content L s fs = (Inr (PDict c), fs)"
    and w: "writable fs (file_path s)"
    and rep: "file_type s = ''.json'' \<and> json_representable L (Some 2) (PDict (dict_update c n))
      \<or> file_type s = ''.toml'' \<and> toml_representable L (PDict (dict_update c n))"
  shows "\<exists>fs' r. update_content L s (PDict n) fs = (Inr (), fs')
           \<and> get_content L s fs' = (Inr r, fs') \<and> py_eq r (PDict (dict_update c n))"
proof -
  let ?p = "file_path s" and ?m = "PDict (dict_update c n)"
  have ow: "open_write fs ?p = Inr (fs(?p \<mapsto> File []))"
    using w by (rule open_write_writable)
  have fw: "\<And>d. f_write (fs(?p \<mapsto> File [])) ?p d = fs(?p \<mapsto> File d)"
    by (simp add: f_write_def)
  have pu: "py_update (PDict c) n = Inr ?m"
    by (simp add: py_update_def)
  from rep show ?thesis
  proof
    assume j: "file_type s = ''.json'' \<and> json_representable L (Some 2) ?m"
    then obtain out r where d: "json_dump L (Some 2) ?m = (out, None)"
      and l: "json_load L out = Inr r" and e: "py_eq r ?m"
      by (auto simp: json_representable_def split: prod.splits option.splits sum.splits)
    have "update_content L s (PDict n) fs = (Inr (), fs(?p \<mapsto> File out))"
      using j by (simp add: update_content_def cur ow pu d fw)
    moreover have "get_content L s (fs(?p \<mapsto> File out)) = (Inr r, fs(?p \<mapsto> File out))"
      using j by (simp add: get_content_def os_path_exists_def l)
    ultimately show ?thesis using e by blast
  next
    assume t: "file_type s = ''.toml'' \<and> toml_representable L ?m"
    have rt: "\<exists>fs' r. add_content L s ?m (fs(?p \<mapsto> File [])) = (Inr (), fs')
        \<and> get_content L s fs' = (Inr r, fs') \<and> py_eq r ?m"
      using t writable_after_open [of fs ?p "[]"]
      by (intro roundtrip_exact_type) simp_all
    have "update_content L s (PDict n) fs = add_content L s ?m (fs(?p \<mapsto> File []))"
      using t by (simp add: update_content_def cur ow pu)
    then show ?thesis using rt by simp
  qed
qed

text \<open>
  The check of the TOML text in \<open>add_content\<close>: the ValueError with message \<open>m\<close> is raised
  exactly when the writer returned a text, the reader rejected it as TOML, and \<open>m\<close> is
  the module's message followed by the text; an exception of the writer is passed on.
\<close>

lemma add_content_toml_check:
  assumes ft: "file_type s = ''.toml''" and w: "writable fs (file_path s)"
  shows "(fst (add_content L s contents fs) = Inl (ValueError m)
            \<longleftrightarrow> (\<exists>str. tomli_w_dumps L contents = Inr str
                   \<and> tomllib_loads L str = Inl TOMLDecodeError \<and> m = toml_message @ str))
       \<and> (\<forall>e. tomli_w_dumps L contents = Inl e
            \<longrightarrow> fst (add_content L s contents fs) = Inl (LibraryError e))"
proof -
  have ow: "open_write fs (file_path s) = Inr (fs(file_path s \<mapsto> File []))"
    using w by (rule open_write_writable)
  show ?thesis
  proof (cases "tomli_w_dumps L contents")
    case (Inl e)
    then show ?thesis by (simp add: add_content_def ft ow)
  next
    case (Inr str)
    note d = this
    show ?thesis
    proof (cases "tomllib_loads L str")
      case (Inl e)
      then show ?thesis
        by (cases e) (auto simp: add_content_def ft ow d)
    next
      case (Inr r)
      then show ?thesis
        by (cases "encode_utf8 L str") (auto simp: add_content_def ft ow d)
    qed
  qed
qed

text \<open>With a writer whose text the reader rejects, the ValueError carries that text.\<close>

lemma add_content_rejected_text:
  "add_content careless_writer_libs toml_store (PDict [(''a'', PInt 2)])
       (one_file ''/tmp/cfg/test.toml'' ''a = 1\<newline>'')
     = (Inl (ValueError (toml_message @ ''[unclosed'')), one_file ''/tmp/cfg/test.toml'' [])"
  by (simp add: add_content_def open_write_def careless_writer_libs_def sample_defs)

text \<open>
  With the libraries of the excerpt and the store of type \<open>json\<close>, merging \<open>{a: 1}\<close> and
  then \<open>{b: 2}\<close> into the empty mapping reads back as \<open>{a: 1, b: 2}\<close>, and merging
  \<open>{a: 1}\<close> and then \<open>{a: 2}\<close> reads back as \<open>{a: 2}\<close>.
\<close>

lemma merge_examples_json_store:
  \<open>update_content sample_libs json_store (PDict [(''a'', PInt 1)])
       (one_file ''/tmp/cfg/test.json'' ''{}'')
     = (Inr (), one_file ''/tmp/cfg/test.json'' ''{\<newline>  "a": 1\<newline>}'')
   \<and> update_content sample_libs json_store (PDict [(''b'', PInt 2)])
       (one_file ''/tmp/cfg/test.json'' ''{\<newline>  "a": 1\<newline>}'')
     = (Inr (), one_file ''/tmp/cfg/test.json'' ''{\<newline>  "a": 1,\<newline>  "b": 2\<newline>}'')
   \<and> fst (get_content sample_libs json_store
       (one_file ''/tmp/cfg/test.json'' ''{\<newline>  "a": 1,\<newline>  "b": 2\<newline>}''))
     = Inr (PDict [(''a'', PInt 1), (''b'', PInt 2)])
   \<and> update_content sample_libs json_store (PDict [(''a'', PInt 2)])
       (one_file ''/tmp/cfg/test.json'' ''{\<newline>  "a": 1\<newline>}'')
     = (Inr (), one_file ''/tmp/cfg/test.json'' ''{\<newline>  "a": 2\<newline>}'')
   \<and> fst (get_content sample_libs json_store
       (one_file ''/tmp/cfg/test.json'' ''{\<newline>  "a": 2\<newline>}''))
     = Inr (PDict [(''a'', PInt 2)])\<close>
  by (simp add: update_content_def get_content_def open_write_def f_write_def
      os_path_exists_def py_update_def dict_update_def sample_defs)

section \<open>Writing everything and reading it back\<close>

text \<open>
  C1. Writing a mapping with \<open>add_content\<close> and reading with \<open>get_content\<close> on the same
  store should return the mapping. On the store that \<^verbatim>\<open>Config('test', 'JSON', '/tmp/cfg')\<close>
  constructs it does not: the type of the store is \<open>.JSON\<close>, \<open>add_content\<close> compares it with
  \<open>.json\<close> and \<open>.toml\<close> exactly and writes nothing, and \<open>get_content\<close> finds no file and
  returns the empty mapping in the place of \<open>{a: 1}\<close>.
\<close>

theorem add_content_uppercase_type_writes_nothing:
  "init sample_libs ''/home/user'' ''test'' ''JSON'' (Some ''/tmp/cfg'') cfg_dir
     = (Inr upper_store, cfg_dir)
   \<and> add_content sample_libs upper_store (PDict [(''a'', PInt 1)]) cfg_dir = (Inr (), cfg_dir)
   \<and> get_content sample_libs upper_store cfg_dir = (Inr (PDict []), cfg_dir)
   \<and> PDict [] \<noteq> PDict [(''a'', PInt 1)]"
  by (simp add: op_defs init_defs sample_defs)

section \<open>Merging\<close>

text \<open>
  C2. After \<open>update_content\<close> the store should read as the merged mapping. On the store
  that \<^verbatim>\<open>Config('test', 'JSON', '/tmp/cfg')\<close> constructs, merging \<open>{a: 1}\<close> opens the file
  for writing, which creates it empty, takes neither branch and returns normally; the
  file holds nothing, and \<open>get_content\<close> on it takes neither branch either and returns
  None in the place of \<open>{a: 1}\<close>.
\<close>

theorem update_content_uppercase_type_stores_nothing:
  "init sample_libs ''/home/user'' ''test'' ''JSON'' (Some ''/tmp/cfg'') cfg_dir
     = (Inr upper_store, cfg_dir)
   \<and> update_content sample_libs upper_store (PDict [(''a'', PInt 1)]) cfg_dir
     = (Inr (), one_file ''/tmp/cfg/test.JSON'' [])
   \<and> get_content sample_libs upper_store (one_file ''/tmp/cfg/test.JSON'' [])
     = (Inr PNone, one_file ''/tmp/cfg/test.JSON'' [])"
  by (simp add: op_defs init_defs sample_defs)

section \<open>Validation of the TOML text\<close>

text \<open>
  C3. Writing a mapping with a value that TOML does not support should fail with the
  ValueError that carries the text. A mapping with a None value is refused by the TOML
  writer itself, with a TypeError and no text; the call of the writer stands outside
  the \<^verbatim>\<open>try\<close>, so \<open>add_content\<close> raises that TypeError. The file that held \<open>a = 1\<close> is
  left empty.
\<close>

theorem add_content_toml_none_value:
  "fst (add_content sample_libs toml_store (PDict [(''k'', PNone)])
          (one_file ''/tmp/cfg/test.toml'' ''a = 1\<newline>''))
     = Inl (LibraryError (TypeError ''Object of type 'NoneType' is not TOML serializable''))
   \<and> snd (add_content sample_libs toml_store (PDict [(''k'', PNone)])
          (one_file ''/tmp/cfg/test.toml'' ''a = 1\<newline>'')) ''/tmp/cfg/test.toml''
     = Some (File [])"
  by (simp add: add_content_def open_write_def f_write_def sample_defs)

section \<open>Construction\<close>

text \<open>
  C4. After a successful construction the file of the store should exist. With the file
  type \<open>JSON\<close> the check of the type passes (it compares in lower case), the type becomes
  \<open>.JSON\<close>, and \<open>add_content\<close>, which compares with \<open>.json\<close> and \<open>.toml\<close> exactly, writes
  nothing: construction succeeds and no file exists at the path of the store.
\<close>

theorem init_uppercase_type_creates_no_file:
  "fst (init sample_libs ''/home/user'' ''test'' ''JSON'' (Some ''/tmp/cfg'') no_files)
     = Inr \<lparr>config_name = ''test'', file_type = ''.JSON'',
            default_directory = ''/tmp/cfg'', file_path = ''/tmp/cfg/test.JSON''\<rparr>
   \<and> snd (init sample_libs ''/home/user'' ''test'' ''JSON'' (Some ''/tmp/cfg'') no_files)
         ''/tmp/cfg/test.JSON'' = None
   \<and> \<not> os_path_exists
         (snd (init sample_libs ''/home/user'' ''test'' ''JSON'' (Some ''/tmp/cfg'') no_files))
         ''/tmp/cfg/test.JSON''"
  by (simp add: op_defs init_defs sample_defs)

text \<open>
  When the type after \<open>check_file_type\<close> is exactly \<open>.json\<close> or \<open>.toml\<close> and construction
  succeeds, the path of the store exists afterwards.
\<close>

lemma exact_type_accepted:
  "check_file_type ft = ''.json'' \<or> check_file_type ft = ''.toml'' \<Longrightarrow> accepted ft"
proof -
  assume "check_file_type ft = ''.json'' \<or> check_file_type ft = ''.toml''"
  then have "ft \<in> {''json'', ''.json'', ''toml'', ''.toml''}"
    by (auto simp: check_file_type_def split: if_splits)
  then show ?thesis
    by (auto simp: accepted_def ACCEPTED_CONFIG_TYPES_def py_lower_def lower_char_def)
qed

lemma add_content_creates:
  assumes "file_type s = ''.json'' \<or> file_type s = ''.toml''"
    and "add_content L s v fs = (Inr (), fs')"
  shows "os_path_exists fs' (file_path s)"
proof (cases "open_write fs (file_path s)")
  case (Inl e)
  then show ?thesis using assms by (auto simp: add_content_def)
next
  case (Inr fs1)
  then have "fs1 = fs(file_path s \<mapsto> File [])"
    by (rule open_write_result)
  then show ?thesis
    using assms Inr
    by (auto simp: add_content_def f_write_def os_path_exists_def
        split: sum.splits prod.splits option.splits lib_exn.splits)
qed

lemma init_exact_type_creates_file:
  assumes ex: "check_file_type ft = ''.json'' \<or> check_file_type ft = ''.toml''"
    and ok: "init L cwd name ft dir fs = (Inr s, fs')"
  shows "os_path_exists fs' (path_of cwd name dir ft)"
proof -
  let ?s = "\<lparr>config_name = name, file_type = check_file_type ft,
            default_directory = directory_of cwd dir, file_path = path_of cwd name dir ft\<rparr>"
  let ?fs1 = "if \<not> os_path_exists fs (directory_of cwd dir)
              then os_makedirs fs (directory_of cwd dir) else fs"
  have ac: "accepted ft" using ex by (rule exact_type_accepted)
  show ?thesis
  proof (cases "os_path_exists ?fs1 (path_of cwd name dir ft)")
    case True
    then show ?thesis using ok unfolding init_accepted [OF ac] by auto
  next
    case False
    obtain r fs2 where a: "add_content L ?s (PDict []) ?fs1 = (r, fs2)"
      by (cases "add_content L ?s (PDict []) ?fs1")
    from ok False a have "r = Inr ()" and "fs2 = fs'"
      unfolding init_accepted [OF ac] by (cases r; simp)+
    then show ?thesis
      using add_content_creates [of ?s L "PDict []" ?fs1 fs'] ex a by simp
  qed
qed

text \<open>
  C5. When a file already exists at the path of the store, construction leaves its
  content as it is: the path still holds the same file afterwards, and with an accepted
  file type construction succeeds without writing.
\<close>

theorem init_keeps_existing_file:
  assumes ex: "fs (path_of cwd name dir ft) = Some (File c)"
  shows "snd (init L cwd name ft dir fs) (path_of cwd name dir ft) = Some (File c)
       \<and> (accepted ft \<longrightarrow>
            fst (init L cwd name ft dir fs)
              = Inr \<lparr>config_name = name, file_type = check_file_type ft,
                     default_directory = directory_of cwd dir,
                     file_path = path_of cwd name dir ft\<rparr>)"
proof (cases "accepted ft")
  case False
  then show ?thesis using ex by (simp add: init_def)
next
  case True
  let ?fs1 = "if \<not> os_path_exists fs (directory_of cwd dir)
              then os_makedirs fs (directory_of cwd dir) else fs"
  have same: "?fs1 (path_of cwd name dir ft) = Some (File c)"
    using ex by (auto simp: os_path_exists_def os_makedirs_def)
  then have e1: "os_path_exists ?fs1 (path_of cwd name dir ft)"
    by (simp add: os_path_exists_def)
  have "init L cwd name ft dir fs
      = (Inr \<lparr>config_name = name, file_type = check_file_type ft,
              default_directory = directory_of cwd dir,
              file_path = path_of cwd name dir ft\<rparr>, ?fs1)"
    unfolding init_accepted [OF True] using e1 by simp
  then show ?thesis using same by simp
qed

theorem init_keeps_existing_file_witness:
  "one_file ''/tmp/cfg/test.json'' ''{\"a\": 1}''
       (path_of ''/home/user'' ''test'' (Some ''/tmp/cfg'') ''json'') = Some (File ''{\"a\": 1}'')
   \<and> accepted ''json''
   \<and> snd (init sample_libs ''/home/user'' ''test'' ''json'' (Some ''/tmp/cfg'')
            (one_file ''/tmp/cfg/test.json'' ''{\"a\": 1}''))
         (path_of ''/home/user'' ''test'' (Some ''/tmp/cfg'') ''json'') = Some (File ''{\"a\": 1}'')
   \<and> fst (init sample_libs ''/home/user'' ''test'' ''json'' (Some ''/tmp/cfg'')
            (one_file ''/tmp/cfg/test.json'' ''{\"a\": 1}'')) = Inr json_store"
proof -
  let ?fs = "one_file ''/tmp/cfg/test.json'' ''{\"a\": 1}''"
  have p: "path_of ''/home/user'' ''test'' (Some ''/tmp/cfg'') ''json'' = ''/tmp/cfg/test.json''"
    by (simp add: init_defs)
  have ex: "?fs (path_of ''/home/user'' ''test'' (Some ''/tmp/cfg'') ''json'')
      = Some (File ''{\"a\": 1}'')"
    by (simp add: p one_file_def)
  have ac: "accepted ''json''"
    by (simp add: init_defs)
  have s: "\<lparr>config_name = ''test'', file_type = check_file_type ''json'',
            default_directory = directory_of ''/home/user'' (Some ''/tmp/cfg''),
            file_path = path_of ''/home/user'' ''test'' (Some ''/tmp/cfg'') ''json''\<rparr> = json_store"
    by (simp add: p json_store_def check_file_type_def directory_of_def)
  show ?thesis
    using ex ac init_keeps_existing_file [of ?fs "''/home/user''" "''test''" "Some ''/tmp/cfg''" "''json''"
        "''{\"a\": 1}''" sample_libs, OF ex]
    by (simp add: s)
qed

text \<open>
  C8. Construction fails with the ValueError of the file type exactly when the file type,
  in lower case, contains neither \<open>json\<close> nor \<open>toml\<close> as a substring. With the file
  type \<open>xml\<close> it fails so and leaves the file system as it is.
\<close>

theorem init_format_validation:
  "(fst (init L cwd name ft dir fs) = Inl (ValueError format_message)
      \<longleftrightarrow> \<not> ((\<exists>p q. py_lower ft = p @ ''json'' @ q) \<or> (\<exists>p q. py_lower ft = p @ ''toml'' @ q)))
   \<and> init L cwd name ''xml'' dir fs = (Inl (ValueError format_message), fs)"
proof (intro conjI)
  show "init L cwd name ''xml'' dir fs = (Inl (ValueError format_message), fs)"
    by (simp add: init_def init_defs)
next
  let ?s = "\<lparr>config_name = name, file_type = check_file_type ft,
            default_directory = directory_of cwd dir, file_path = path_of cwd name dir ft\<rparr>"
  have a: "fst (add_content L ?s w fs1) \<noteq> Inl (ValueError format_message)" for w fs1
    using add_content_errors [of L ?s w fs1 format_message] format_message_neq by metis
  have "fst (init L cwd name ft dir fs) = Inl (ValueError format_message) \<longleftrightarrow> \<not> accepted ft"
  proof (cases "accepted ft")
    case False
    then show ?thesis by (simp add: init_def)
  next
    case True
    let ?fs1 = "if \<not> os_path_exists fs (directory_of cwd dir)
                then os_makedirs fs (directory_of cwd dir) else fs"
    obtain r fs2 where ac: "add_content L ?s (PDict []) ?fs1 = (r, fs2)"
      by (cases "add_content L ?s (PDict []) ?fs1")
    have "r \<noteq> Inl (ValueError format_message)"
      using a [of "PDict []" ?fs1] ac by simp
    then have "fst (init L cwd name ft dir fs) \<noteq> Inl (ValueError format_message)"
      unfolding init_accepted [OF True] using ac by (cases r) (simp_all split: if_splits)
    then show ?thesis using True by simp
  qed
  then show "fst (init L cwd name ft dir fs) = Inl (ValueError format_message)
      \<longleftrightarrow> \<not> ((\<exists>p q. py_lower ft = p @ ''json'' @ q) \<or> (\<exists>p q. py_lower ft = p @ ''toml'' @ q))"
    by (simp only: accepted_iff)
qed

theorem init_format_validation_witness:
  "fst (init sample_libs ''/home/user'' ''test'' ''yaml'' None no_files)
      = Inl (ValueError format_message)
   \<and> \<not> ((\<exists>p q. py_lower ''yaml'' = p @ ''json'' @ q) \<or> (\<exists>p q. py_lower ''yaml'' = p @ ''toml'' @ q))
   \<and> fst (init sample_libs ''/home/user'' ''test'' ''.TOML'' None no_files)
      \<noteq> Inl (ValueError format_message)"
proof -
  have y: "fst (init sample_libs ''/home/user'' ''test'' ''yaml'' None no_files)
      = Inl (ValueError format_message)"
    by (simp add: init_def init_defs)
  have t: "py_lower ''.TOML'' = ''.'' @ ''toml'' @ []"
    by (simp add: py_lower_def lower_char_def)
  then have "\<exists>p q. py_lower ''.TOML'' = p @ ''toml'' @ q"
    by blast
  then show ?thesis
    using y
      init_format_validation [where L = sample_libs and cwd = "''/home/user''" and name = "''test''"
            and ft = "''yaml''" and dir = None and fs = no_files]
      init_format_validation [where L = sample_libs and cwd = "''/home/user''" and name = "''test''"
            and ft = "''.TOML''" and dir = None and fs = no_files]
    by blast
qed

section \<open>Reading an absent file\<close>

text \<open>
  C6. When nothing exists at the path of the store, \<open>get_content\<close> returns the empty
  mapping and leaves the file system as it is, so the file is not created. After a
  successful \<open>destroy_config\<close> nothing exists at the path and \<open>get_content\<close> returns the
  empty mapping.
\<close>

theorem get_content_absent_file:
  "(\<not> os_path_exists fs (file_path s) \<longrightarrow> get_content L s fs = (Inr (PDict []), fs))
   \<and> (destroy_config s fs = (Inr (), fs') \<longrightarrow>
        \<not> os_path_exists fs' (file_path s) \<and> get_content L s fs' = (Inr (PDict []), fs'))"
  by (auto simp: get_content_def destroy_config_def os_remove_def os_path_exists_def
      split: option.splits node.splits)

theorem get_content_absent_file_witness:
  "\<not> os_path_exists no_files (file_path toml_store)
   \<and> get_content sample_libs toml_store no_files = (Inr (PDict []), no_files)
   \<and> destroy_config json_store (one_file ''/tmp/cfg/test.json'' ''{}'')
        = (Inr (), (one_file ''/tmp/cfg/test.json'' ''{}'')(''/tmp/cfg/test.json'' := None))
   \<and> \<not> os_path_exists ((one_file ''/tmp/cfg/test.json'' ''{}'')(''/tmp/cfg/test.json'' := None))
          (file_path json_store)
   \<and> get_content sample_libs json_store
         ((one_file ''/tmp/cfg/test.json'' ''{}'')(''/tmp/cfg/test.json'' := None))
        = (Inr (PDict []), (one_file ''/tmp/cfg/test.json'' ''{}'')(''/tmp/cfg/test.json'' := None))"
proof -
  let ?fs = "one_file ''/tmp/cfg/test.json'' ''{}''"
  let ?fs' = "?fs(''/tmp/cfg/test.json'' := None)"
  have a: "\<not> os_path_exists no_files (file_path toml_store)"
    by (simp add: os_path_exists_def no_files_def)
  have d: "destroy_config json_store ?fs = (Inr (), ?fs')"
    by (simp add: destroy_config_def os_remove_def json_store_def one_file_def)
  show ?thesis
    using a d get_content_absent_file [where fs = no_files and s = toml_store and L = sample_libs]
      get_content_absent_file [where fs = ?fs and s = json_store and L = sample_libs and fs' = ?fs']
    by simp
qed

section \<open>The argument of a merge\<close>

text \<open>
  C7. With an argument that is not a dictionary \<open>update_content\<close> raises the ValueError
  of the argument and the file system is unchanged. With a dictionary it never raises
  that ValueError.
\<close>

theorem update_content_rejects_non_dict:
  "(\<not> isinstance_dict v \<longrightarrow> update_content L s v fs = (Inl (ValueError dict_message), fs))
   \<and> (isinstance_dict v \<longrightarrow> fst (update_content L s v fs) \<noteq> Inl (ValueError dict_message))"
proof (intro conjI impI)
  assume "\<not> isinstance_dict v"
  then show "update_content L s v fs = (Inl (ValueError dict_message), fs)"
    by (simp add: update_content_def)
next
  assume d: "isinstance_dict v"
  have g: "fst (get_content L s fs) \<noteq> Inl (ValueError dict_message)"
    by (rule get_content_errors)
  have a: "fst (add_content L s w fs1) \<noteq> Inl (ValueError dict_message)" for w fs1
    using add_content_errors [of L s w fs1 dict_message] dict_message_neq by metis
  show "fst (update_content L s v fs) \<noteq> Inl (ValueError dict_message)"
  proof (cases "get_content L s fs")
    case (Pair r fs0)
    show ?thesis
    proof (cases r)
      case (Inl e)
      then show ?thesis using g Pair d by (simp add: update_content_def)
    next
      case (Inr file_contents)
      show ?thesis
      proof (cases "open_write fs0 (file_path s)")
        case (Inl e)
        then have "e \<noteq> ValueError dict_message"
          using open_write_errors [of fs0 "file_path s" dict_message] by auto
        then show ?thesis using Pair Inr Inl d by (simp add: update_content_def)
      next
        case (Inr fs1)
        note ow = this
        show ?thesis
        proof (cases "py_update file_contents (items v)")
          case (Inl e)
          then have "e = AttributeError"
            by (auto simp: py_update_def split: pyval.splits)
          then show ?thesis
            using Pair \<open>r = Inr file_contents\<close> ow Inl d by (simp add: update_content_def)
        next
          case (Inr merged)
          then show ?thesis
            using Pair \<open>r = Inr file_contents\<close> ow d a [of merged fs1]
            by (auto simp: update_content_def split: prod.splits option.splits)
        qed
      qed
    qed
  qed
qed

theorem update_content_rejects_non_dict_witness:
  "\<not> isinstance_dict (PList [PInt 1, PInt 2, PInt 3])
   \<and> update_content sample_libs json_store (PList [PInt 1, PInt 2, PInt 3])
        (one_file ''/tmp/cfg/test.json'' ''{}'')
      = (Inl (ValueError dict_message), one_file ''/tmp/cfg/test.json'' ''{}'')
   \<and> isinstance_dict (PDict [(''a'', PInt 1)])
   \<and> fst (update_content sample_libs json_store (PDict [(''a'', PInt 1)])
        (one_file ''/tmp/cfg/test.json'' ''{}'')) \<noteq> Inl (ValueError dict_message)"
  using update_content_rejects_non_dict [of "PList [PInt 1, PInt 2, PInt 3]" sample_libs json_store
              "one_file ''/tmp/cfg/test.json'' ''{}''"]
    update_content_rejects_non_dict [of "PDict [(''a'', PInt 1)]" sample_libs json_store
              "one_file ''/tmp/cfg/test.json'' ''{}''"]
  by simp

section \<open>Removing the file\<close>



section \<open>A failed merge into a TOML store\<close>

text \<open>
  C10. For a TOML store that reads as the mapping \<open>c\<close> and whose file can be opened
  for writing (it exists, or the directory it lies in does), when the TOML writer raises
  on the merged mapping, or the reader raises on the text the writer returned,
  \<open>update_content\<close> fails and the file is left empty: it was truncated before the merged
  mapping was serialised.
\<close>

theorem update_content_toml_truncates:
  assumes ft: "file_type s = ''.toml''"
    and cur: "get_content L s fs = (Inr (PDict c), fs)"
    and w: "writable fs (file_path s)"
    and bad: "(\<exists>e. tomli_w_dumps L (PDict (dict_update c n)) = Inl e)
        \<or> (\<exists>str e. tomli_w_dumps L (PDict (dict_update c n)) = Inr str
                   \<and> tomllib_loads L str = Inl e)"
  shows "\<exists>err. update_content L s (PDict n) fs = (Inl err, fs(file_path s \<mapsto> File []))"
proof -
  let ?p = "file_path s" and ?m = "PDict (dict_update c n)"
  have ow: "open_write fs ?p = Inr (fs(?p \<mapsto> File []))"
    using w by (rule open_write_writable)
  have ow2: "open_write (fs(?p \<mapsto> File [])) ?p = Inr (fs(?p \<mapsto> File []))"
    by (simp add: open_write_def)
  have u: "update_content L s (PDict n) fs = add_content L s ?m (fs(?p \<mapsto> File []))"
    by (simp add: update_content_def cur ow ft py_update_def)
  from bad show ?thesis
  proof
    assume "\<exists>e. tomli_w_dumps L ?m = Inl e"
    then show ?thesis
      by (auto simp: u add_content_def ft ow2)
  next
    assume "\<exists>str e. tomli_w_dumps L ?m = Inr str \<and> tomllib_loads L str = Inl e"
    then obtain str e where d: "tomli_w_dumps L ?m = Inr str" and l: "tomllib_loads L str = Inl e"
      by blast
    show ?thesis
      by (cases e) (simp_all add: u add_content_def ft ow2 d l)
  qed
qed

theorem update_content_toml_truncates_witness:
  "file_type toml_store = ''.toml''
   \<and> writable (one_file ''/tmp/cfg/test.toml'' ''a = 1\<newline>'') (file_path toml_store)
   \<and> get_content sample_libs toml_store (one_file ''/tmp/cfg/test.toml'' ''a = 1\<newline>'')
       = (Inr (PDict [(''a'', PInt 1)]), one_file ''/tmp/cfg/test.toml'' ''a = 1\<newline>'')
   \<and> tomli_w_dumps sample_libs (PDict (dict_update [(''a'', PInt 1)] [(''k'', PNone)]))
       = Inl (TypeError ''Object of type 'NoneType' is not TOML serializable'')
   \<and> (\<exists>err. update_content sample_libs toml_store (PDict [(''k'', PNone)])
                (one_file ''/tmp/cfg/test.toml'' ''a = 1\<newline>'')
              = (Inl err, (one_file ''/tmp/cfg/test.toml'' ''a = 1\<newline>'')
                            (file_path toml_store \<mapsto> File [])))"
proof -
  let ?fs = "one_file ''/tmp/cfg/test.toml'' ''a = 1\<newline>''"
  have ft: "file_type toml_store = ''.toml''"
    by (simp add: toml_store_def)
  have cur: "get_content sample_libs toml_store ?fs = (Inr (PDict [(''a'', PInt 1)]), ?fs)"
    by (simp add: get_content_def os_path_exists_def sample_defs)
  have w: "writable ?fs (file_path toml_store)"
    by (simp add: writable_def sample_defs)
  have d: "tomli_w_dumps sample_libs (PDict (dict_update [(''a'', PInt 1)] [(''k'', PNone)]))
      = Inl (TypeError ''Object of type 'NoneType' is not TOML serializable'')"
    by (simp add: dict_update_def sample_defs)
  then have bad: "(\<exists>e. tomli_w_dumps sample_libs
          (PDict (dict_update [(''a'', PInt 1)] [(''k'', PNone)])) = Inl e)
      \<or> (\<exists>str e. tomli_w_dumps sample_libs
          (PDict (dict_update [(''a'', PInt 1)] [(''k'', PNone)])) = Inr str
            \<and> tomllib_loads sample_libs str = Inl e)"
    by blast
  show ?thesis
    using ft cur w d
      update_content_toml_truncates [where s = toml_store and L = sample_libs and fs = ?fs and c = "[(''a'', PInt 1)]"
             and n = "[(''k'', PNone)]", OF ft cur w bad]
    by blast
qed

end
